theory Spec2Isabelle
  imports Complex_Main
begin

section \<open>The energy model of Problem.py\<close>

text \<open>
  The class \<^verbatim>\<open>problem\<close> of
  \<^verbatim>\<open>src/python/pressure_load_1.2/analytical_area_penalty1.2.2/Problem.py\<close>
  supplies an objective, a gradient and an approximate Hessian over the flattened vertex
  vector \<open>x\<close> of a triangle mesh.

  Conventions of the embedding.
  \<^item> A float64 is a \<open>real\<close>: the theory is about the formulas the code evaluates, not
    about rounding.
  \<^item> A 1-D array is a \<open>real list\<close>, a 2-D array or matrix a list of rows.
  \<^item> Everything the code can run into is a value of \<open>py_error\<close>. NumPy does not raise on
    a float division by zero: it warns and continues with \<open>nan\<close> or \<open>inf\<close>. No real number
    stands for those, so the model stops at such a division with \<open>FloatingPointError\<close>
    (the exception NumPy itself raises there under \<^verbatim>\<open>np.seterr(all='raise')\<close>).
  \<^item> The mesh library (PyMesh) and \<^verbatim>\<open>scipy.sparse.linalg.inv\<close> are not part of the
    repository. They are a parameter \<open>lib\<close> of the model, a record of functions, so a
    theorem about every \<open>lib\<close> holds whatever the library computes.
\<close>

subsection \<open>Errors\<close>

datatype py_error =
    ValueError      \<comment> \<open>shapes that do not fit: reshape, matrix product, broadcasting\<close>
  | IndexError      \<comment> \<open>an index outside an array\<close>
  | FloatingPointError
      \<comment> \<open>a float operation without a real value: a zero divisor, a negative radicand\<close>
  | LibraryError    \<comment> \<open>raised inside the mesh or sparse library\<close>

text \<open>A statement that may raise, followed by the rest of the function body.\<close>

definition seq :: "py_error + 'a \<Rightarrow> ('a \<Rightarrow> py_error + 'b) \<Rightarrow> py_error + 'b" where
  "seq m f = (case m of Inl e \<Rightarrow> Inl e | Inr v \<Rightarrow> f v)"

subsection \<open>Vectors and matrices\<close>

type_synonym vec = "real list"
type_synonym mat = "real list list"
type_synonym vec3 = "real \<times> real \<times> real"
type_synonym face = "nat \<times> nat \<times> nat"

definition vadd :: "vec \<Rightarrow> vec \<Rightarrow> vec" where
  "vadd x y = map2 (+) x y"

definition vsub :: "vec \<Rightarrow> vec \<Rightarrow> vec" where
  "vsub x y = map2 (-) x y"

definition smul :: "real \<Rightarrow> vec \<Rightarrow> vec" where
  "smul c x = map ((*) c) x"

text \<open>\<^verbatim>\<open>np.inner\<close> of two 1-D arrays of one length.\<close>

definition inner :: "vec \<Rightarrow> vec \<Rightarrow> real" where
  "inner x y = sum_list (map2 (*) x y)"

text \<open>\<^verbatim>\<open>np.outer\<close>.\<close>

definition outer :: "vec \<Rightarrow> vec \<Rightarrow> mat" where
  "outer x y = map (\<lambda>a. map (\<lambda>b. a * b) y) x"

definition nrows :: "mat \<Rightarrow> nat" where
  "nrows A = length A"

definition ncols :: "mat \<Rightarrow> nat" where
  "ncols A = (case A of [] \<Rightarrow> 0 | r # _ \<Rightarrow> length r)"

text \<open>\<open>is_mat m n A\<close>: \<open>A\<close> has \<open>m\<close> rows of \<open>n\<close> entries each.\<close>

definition is_mat :: "nat \<Rightarrow> nat \<Rightarrow> mat \<Rightarrow> bool" where
  "is_mat m n A = (length A = m \<and> list_all (\<lambda>r. length r = n) A)"

definition mtranspose :: "mat \<Rightarrow> mat" where
  "mtranspose A = map (\<lambda>j. map (\<lambda>r. r ! j) A) [0..<ncols A]"

text \<open>Matrix times 1-D array, and 1-D array (as a row) times matrix.\<close>

definition mat_vec :: "mat \<Rightarrow> vec \<Rightarrow> vec" where
  "mat_vec A x = map (\<lambda>r. inner r x) A"

definition vec_mat :: "vec \<Rightarrow> mat \<Rightarrow> vec" where
  "vec_mat x A = map (\<lambda>c. inner x c) (mtranspose A)"

text \<open>The matrix product: \<^verbatim>\<open>*\<close> of scipy sparse matrices and of \<^verbatim>\<open>np.matrix\<close>.\<close>

definition mmul :: "mat \<Rightarrow> mat \<Rightarrow> mat" where
  "mmul A B = map (\<lambda>r. vec_mat r B) A"

text \<open>
  The elementwise operations of \<^verbatim>\<open>np.ndarray\<close>: \<^verbatim>\<open>+\<close>, \<^verbatim>\<open>-\<close>, \<^verbatim>\<open>*\<close> of two arrays of one
  shape, and an array divided by a scalar.
\<close>

definition madd :: "mat \<Rightarrow> mat \<Rightarrow> mat" where
  "madd A B = map2 vadd A B"

definition msub :: "mat \<Rightarrow> mat \<Rightarrow> mat" where
  "msub A B = map2 vsub A B"

definition mmul_elem :: "mat \<Rightarrow> mat \<Rightarrow> mat" where
  "mmul_elem A B = map2 (map2 (*)) A B"

definition mdiv_scalar :: "mat \<Rightarrow> real \<Rightarrow> mat" where
  "mdiv_scalar A c = map (map (\<lambda>a. a / c)) A"

text \<open>\<^verbatim>\<open>np.eye(n)\<close> and \<^verbatim>\<open>np.zeros(n)\<close>.\<close>

definition eye :: "nat \<Rightarrow> mat" where
  "eye n = map (\<lambda>i. map (\<lambda>j. if i = j then 1 else 0) [0..<n]) [0..<n]"

definition zeros :: "nat \<Rightarrow> vec" where
  "zeros n = replicate n 0"

text \<open>\<^verbatim>\<open>scipy.sparse.block_diag((B, B, B))\<close>.\<close>

definition block_diag3 :: "mat \<Rightarrow> mat" where
  "block_diag3 B =
     (let n = ncols B in
        map (\<lambda>r. r @ zeros n @ zeros n) B
      @ map (\<lambda>r. zeros n @ r @ zeros n) B
      @ map (\<lambda>r. zeros n @ zeros n @ r) B)"

subsection \<open>Three-dimensional vectors\<close>

fun add3 :: "vec3 \<Rightarrow> vec3 \<Rightarrow> vec3" where
  "add3 (a, b, c) (d, e, f) = (a + d, b + e, c + f)"

fun sub3 :: "vec3 \<Rightarrow> vec3 \<Rightarrow> vec3" where
  "sub3 (a, b, c) (d, e, f) = (a - d, b - e, c - f)"

fun scale3 :: "real \<Rightarrow> vec3 \<Rightarrow> vec3" where
  "scale3 k (a, b, c) = (k * a, k * b, k * c)"

fun neg3 :: "vec3 \<Rightarrow> vec3" where
  "neg3 (a, b, c) = (- a, - b, - c)"

fun dot3 :: "vec3 \<Rightarrow> vec3 \<Rightarrow> real" where
  "dot3 (a, b, c) (d, e, f) = a * d + b * e + c * f"

text \<open>\<^verbatim>\<open>np.cross\<close>.\<close>

fun cross3 :: "vec3 \<Rightarrow> vec3 \<Rightarrow> vec3" where
  "cross3 (a, b, c) (d, e, f) = (b * f - c * e, c * d - a * f, a * e - b * d)"

text \<open>\<^verbatim>\<open>np.linalg.norm\<close> of a 3-vector.\<close>

definition norm3 :: "vec3 \<Rightarrow> real" where
  "norm3 u = sqrt (dot3 u u)"

subsection \<open>Flattening\<close>

text \<open>
  \<^verbatim>\<open>np.reshape(x, (V, 3), order='F')\<close>: row \<open>i\<close> of the result is
  \<open>(x[i], x[V + i], x[2 V + i])\<close>. It raises when \<open>x\<close> does not have \<open>3 V\<close> entries.
\<close>

definition reshape_F :: "vec \<Rightarrow> nat \<Rightarrow> py_error + vec3 list" where
  "reshape_F x V =
     (if length x \<noteq> 3 * V then Inl ValueError
      else Inr (map (\<lambda>i. (x ! i, x ! (V + i), x ! (2 * V + i))) [0..<V]))"

text \<open>\<^verbatim>\<open>np.reshape(X, 3 V, order='F')\<close> of a \<open>V \<times> 3\<close> array: the columns one after the other.\<close>

definition flatten_F :: "vec3 list \<Rightarrow> vec" where
  "flatten_F X = map fst X @ map (\<lambda>u. fst (snd u)) X @ map (\<lambda>u. snd (snd u)) X"

text \<open>
  \<^verbatim>\<open>np.reshape(a, (F, 3))\<close> in the default row-major order: row \<open>i\<close> is
  \<open>(a[3 i], a[3 i + 1], a[3 i + 2])\<close>.
\<close>

definition reshape_C :: "vec \<Rightarrow> nat \<Rightarrow> py_error + vec3 list" where
  "reshape_C a F =
     (if length a \<noteq> 3 * F then Inl ValueError
      else Inr (map (\<lambda>i. (a ! (3 * i), a ! (3 * i + 1), a ! (3 * i + 2))) [0..<F]))"

subsection \<open>The mesh and the libraries\<close>

record mesh =
  vertices :: "vec3 list"
  faces :: "face list"

text \<open>
  What the code asks of PyMesh and scipy. \<open>lumped_mass\<close> and \<open>assemble_laplacian\<close> are
  \<^verbatim>\<open>assembler.assemble("lumped_mass")\<close> and \<^verbatim>\<open>assembler.assemble("laplacian")\<close>;
  \<open>face_area\<close> and \<open>face_normal\<close> are the attributes of those names as
  \<^verbatim>\<open>get_attribute\<close> returns them, flat; \<open>get_face_adjacent_faces m i\<close> is the list of
  faces adjacent to the face of index \<open>i\<close>; \<open>sp_inv\<close> is
  \<^verbatim>\<open>scipy.sparse.linalg.inv\<close>.
\<close>

record mesh_lib =
  lumped_mass :: "mesh \<Rightarrow> py_error + mat"
  assemble_laplacian :: "mesh \<Rightarrow> py_error + mat"
  face_area :: "mesh \<Rightarrow> vec"
  face_normal :: "mesh \<Rightarrow> vec"
  get_face_adjacent_faces :: "mesh \<Rightarrow> nat \<Rightarrow> py_error + nat list"
  sp_inv :: "mat \<Rightarrow> py_error + mat"

subsection \<open>The object\<close>

text \<open>
  The attributes of a \<^verbatim>\<open>problem\<close> instance. \<open>gradient_pre\<close> starts as the scalar \<open>0\<close>,
  which the first \<^verbatim>\<open>grad - self.gradient_pre\<close> broadcasts; the model holds the
  broadcast value, the zero vector.
\<close>

record problem =
  mesh :: mesh
  init_M :: mat
  At0 :: vec
  hess :: mat
  laplacian :: mat
  penalty :: real
  nu_grad_size :: real
  x0 :: vec
  pressure :: real
  gradient_pre :: vec
  x_pre :: vec
  hess_pre :: mat

text \<open>\<^verbatim>\<open>np.size(self.mesh.vertices)\<close> and \<^verbatim>\<open>np.shape(self.mesh.vertices)[0]\<close>.\<close>

definition size_vertices :: "mesh \<Rightarrow> nat" where
  "size_vertices m = 3 * length (vertices m)"

text \<open>
  The sparse product \<open>A * B\<close> raises unless the columns of \<open>A\<close> are as many as the rows
  of \<open>B\<close>.
\<close>

definition mmul_chk :: "mat \<Rightarrow> mat \<Rightarrow> py_error + mat" where
  "mmul_chk A B = (if ncols A = nrows B then Inr (mmul A B) else Inl ValueError)"

text \<open>\<^verbatim>\<open>__init__\<close> (lines 10 to 28).\<close>

definition init :: "mesh_lib \<Rightarrow> real \<Rightarrow> real \<Rightarrow> mesh \<Rightarrow> real \<Rightarrow> py_error + problem" where
  "init lib penalty' ex_force mesh' nu =
     seq (lumped_mass lib mesh') (\<lambda>M.
     seq (assemble_laplacian lib mesh') (\<lambda>L.
     seq (sp_inv lib M) (\<lambda>Minv.
     seq (mmul_chk (mtranspose L) Minv) (\<lambda>LtMinv.
     seq (mmul_chk LtMinv L) (\<lambda>hess_block.
     seq (mmul_chk Minv L) (\<lambda>lap.
       Inr \<lparr> mesh = mesh',
             init_M = M,
             At0 = face_area lib mesh',
             hess = block_diag3 hess_block,
             laplacian = lap,
             penalty = penalty',
             nu_grad_size = nu,
             x0 = flatten_F (vertices mesh'),
             pressure = ex_force,
             gradient_pre = zeros (size_vertices mesh'),
             x_pre = zeros (size_vertices mesh'),
             hess_pre = eye (size_vertices mesh') \<rparr>))))))"

subsection \<open>Bending\<close>

text \<open>
  \<^verbatim>\<open>obj_func_bending\<close> (lines 31 to 35): \<^verbatim>\<open>np.matrix(x) * H * np.matrix(x).T / 2\<close>, the
  products taken from the left. \<open>np.matrix(x)\<close> is \<open>1 \<times> n\<close>, so the first product needs
  \<open>H\<close> to have \<open>n\<close> rows and the second needs it to have \<open>n\<close> columns.
\<close>

definition obj_func_bending :: "problem \<Rightarrow> vec \<Rightarrow> py_error + real" where
  "obj_func_bending P x =
     (if is_mat (length x) (length x) (hess P)
      then Inr (inner (vec_mat x (hess P)) x / 2)
      else Inl ValueError)"

text \<open>\<^verbatim>\<open>gradient_bending\<close> (lines 63 to 65): the sparse matrix times the 1-D array.\<close>

definition gradient_bending :: "problem \<Rightarrow> vec \<Rightarrow> py_error + vec" where
  "gradient_bending P x =
     (if list_all (\<lambda>r. length r = length x) (hess P)
      then Inr (mat_vec (hess P) x)
      else Inl ValueError)"

text \<open>\<^verbatim>\<open>hessian_bending\<close> (lines 122 to 126).\<close>

definition hessian_bending :: "problem \<Rightarrow> mat" where
  "hessian_bending P = hess P"

subsection \<open>Area penalty\<close>

text \<open>\<^verbatim>\<open>pymesh.form_mesh(vertices, self.mesh.faces)\<close>: the faces of the stored mesh on new positions.\<close>

definition form_mesh :: "vec3 list \<Rightarrow> face list \<Rightarrow> mesh" where
  "form_mesh vs fs = \<lparr> vertices = vs, faces = fs \<rparr>"

text \<open>\<^verbatim>\<open>np.linalg.norm\<close> of a 1-D array.\<close>

definition norm_vec :: "vec \<Rightarrow> real" where
  "norm_vec v = sqrt (sum_list (map (\<lambda>a. a * a) v))"

text \<open>
  \<^verbatim>\<open>obj_func_penalty\<close> (lines 37 to 54). \<open>At - At0\<close> needs both arrays of one length;
  \<open>np.sqrt(At0)\<close> has no value on a negative entry and the division none on a zero one.
\<close>

definition obj_func_penalty :: "mesh_lib \<Rightarrow> problem \<Rightarrow> vec \<Rightarrow> py_error + real" where
  "obj_func_penalty lib P x =
     seq (reshape_F x (length (vertices (mesh P)))) (\<lambda>vs.
       let At = face_area lib (form_mesh vs (faces (mesh P))) in
       if length At \<noteq> length (At0 P) then Inl ValueError
       else if list_ex (\<lambda>a0. a0 \<le> 0) (At0 P) then Inl FloatingPointError
       else Inr (penalty P *
                 (norm_vec (map2 (\<lambda>a a0. (a - a0) / sqrt a0) At (At0 P)))\<^sup>2))"

text \<open>
  \<^verbatim>\<open>np.setdiff1d(face, v)\<close>: the values of the face other than \<open>v\<close>, each once, in
  increasing order.
\<close>

fun setdiff1d :: "face \<Rightarrow> nat \<Rightarrow> nat list" where
  "setdiff1d (a, b, c) v = sort (remdups (filter (\<lambda>u. u \<noteq> v) [a, b, c]))"

fun map3 :: "(real \<Rightarrow> real) \<Rightarrow> vec3 \<Rightarrow> vec3" where
  "map3 g (a, b, c) = (g a, g b, g c)"

text \<open>
  The body of the inner loop (lines 85 to 92), for the vertex \<open>v\<close> and the loop variable
  \<open>f\<close>; its value is the summand \<^verbatim>\<open>2*gradient * (At[f] - self.At0[f])/self.At0[f]\<close>.
  \<open>vs\<close> are the deformed positions, \<open>fnormal\<close> the reshaped normals, \<open>At\<close> the deformed
  areas.
\<close>

definition face_term ::
  "problem \<Rightarrow> vec3 list \<Rightarrow> vec3 list \<Rightarrow> vec \<Rightarrow> nat \<Rightarrow> nat \<Rightarrow> py_error + vec3" where
  "face_term P vs fnormal At v f =
     (if length (faces (mesh P)) \<le> f then Inl IndexError
      else let tri_v = setdiff1d (faces (mesh P) ! f) v in
      if length tri_v < 2 then Inl IndexError
      else if length vs \<le> tri_v ! 0 \<or> length vs \<le> tri_v ! 1 then Inl IndexError
      else let edge = sub3 (vs ! (tri_v ! 0)) (vs ! (tri_v ! 1)) in
      if length fnormal \<le> f then Inl IndexError
      else let gradient = cross3 (fnormal ! f) edge in
      if length vs \<le> v then Inl IndexError
      else let d = sub3 (vs ! v) (vs ! (tri_v ! 0)) in
      if norm3 gradient * norm3 d = 0 then Inl FloatingPointError
      else let gradient' =
                 (if dot3 gradient d / (norm3 gradient * norm3 d) < 0
                  then neg3 gradient else gradient) in
      if length At \<le> f \<or> length (At0 P) \<le> f then Inl IndexError
      else if At0 P ! f = 0 then Inl FloatingPointError
      else Inr (map3 (\<lambda>g. 2 * g * (At ! f - At0 P ! f) / At0 P ! f) gradient'))"

text \<open>The inner loop (lines 84 to 92) over the values \<open>fs\<close> of \<open>f\<close>, from the sum \<open>av\<close> so far.\<close>

fun face_loop ::
  "problem \<Rightarrow> vec3 list \<Rightarrow> vec3 list \<Rightarrow> vec \<Rightarrow> nat \<Rightarrow> nat list \<Rightarrow> vec3 \<Rightarrow> py_error + vec3" where
  "face_loop P vs fnormal At v [] av = Inr av"
| "face_loop P vs fnormal At v (f # fs) av =
     seq (face_term P vs fnormal At v f) (\<lambda>t.
       face_loop P vs fnormal At v fs (add3 av t))"

text \<open>The slice assignment \<^verbatim>\<open>a[3*v:3*v+3] = av\<close> (line 93).\<close>

fun set_slice3 :: "vec \<Rightarrow> nat \<Rightarrow> vec3 \<Rightarrow> vec" where
  "set_slice3 a v (p, q, r) = a[3 * v := p, 3 * v + 1 := q, 3 * v + 2 := r]"

text \<open>
  The outer loop (lines 80 to 93) over the values \<open>vl\<close> of \<open>v\<close>, from the array \<open>a\<close> so
  far. \<^verbatim>\<open>range(np.size(adj_faces))\<close> runs \<open>f\<close> from \<open>0\<close> up to the number of entries of
  \<open>adj_faces\<close>; the entries themselves are not read.
\<close>

fun vertex_loop ::
  "mesh_lib \<Rightarrow> problem \<Rightarrow> mesh \<Rightarrow> vec3 list \<Rightarrow> vec \<Rightarrow> nat list \<Rightarrow> vec \<Rightarrow> py_error + vec" where
  "vertex_loop lib P m fnormal At [] a = Inr a"
| "vertex_loop lib P m fnormal At (v # vl) a =
     seq (get_face_adjacent_faces lib m v) (\<lambda>adj_faces.
     seq (face_loop P (vertices m) fnormal At v [0..<length adj_faces] (0, 0, 0)) (\<lambda>av.
       vertex_loop lib P m fnormal At vl (set_slice3 a v av)))"

text \<open>\<^verbatim>\<open>gradient_penalty\<close> (lines 67 to 96).\<close>

definition gradient_penalty :: "mesh_lib \<Rightarrow> problem \<Rightarrow> vec \<Rightarrow> py_error + vec" where
  "gradient_penalty lib P x =
     (let V = length (vertices (mesh P)) in
      seq (reshape_F x V) (\<lambda>vs.
        let m = form_mesh vs (faces (mesh P)) in
        seq (reshape_C (face_normal lib m) (length (faces m))) (\<lambda>fnormal.
          let At = face_area lib m in
          seq (vertex_loop lib P m fnormal At [0..<V] (zeros (length x))) (\<lambda>a.
            Inr (smul (penalty P) a)))))"

subsection \<open>Pressure force\<close>

text \<open>The sparse \<open>V \<times> V\<close> matrix times the \<open>V \<times> 3\<close> array of positions.\<close>

definition mat_rows3 :: "mat \<Rightarrow> vec3 list \<Rightarrow> vec3 list" where
  "mat_rows3 A X =
     map (\<lambda>r. (inner r (map fst X),
                inner r (map (\<lambda>u. fst (snd u)) X),
                inner r (map (\<lambda>u. snd (snd u)) X))) A"

text \<open>
  \<^verbatim>\<open>force\<close> (lines 98 to 109). The product needs a row length of \<open>V\<close>, the final reshape
  needs \<open>V\<close> rows, and \<open>vector/norm\<close> divides every row by its own norm.
\<close>

definition force :: "problem \<Rightarrow> vec \<Rightarrow> py_error + vec" where
  "force P x =
     (let V = length (vertices (mesh P)) in
      seq (reshape_F x V) (\<lambda>vs.
        if \<not> list_all (\<lambda>r. length r = V) (laplacian P) then Inl ValueError
        else let vector = mat_rows3 (laplacian P) vs in
        if list_ex (\<lambda>u. norm3 u = 0) vector then Inl FloatingPointError
        else let vector' = map (\<lambda>u. map3 (\<lambda>c. c / norm3 u) u) vector in
        if length vector' \<noteq> V then Inl ValueError
        else Inr (smul (pressure P) (flatten_F vector'))))"

subsection \<open>Objective and gradient\<close>

text \<open>\<^verbatim>\<open>obj_func\<close> (lines 56 to 59).\<close>

definition obj_func :: "mesh_lib \<Rightarrow> problem \<Rightarrow> vec \<Rightarrow> py_error + real" where
  "obj_func lib P x =
     seq (obj_func_bending P x) (\<lambda>a.
     seq (obj_func_penalty lib P x) (\<lambda>b.
       Inr (a + b)))"

text \<open>
  \<^verbatim>\<open>gradient\<close> (lines 113 to 118). \<open>b\<close> and \<open>c\<close> have the length of \<open>x\<close>; \<open>a + b\<close> needs
  \<open>a\<close> of that length too.
\<close>

definition gradient :: "mesh_lib \<Rightarrow> problem \<Rightarrow> vec \<Rightarrow> py_error + vec" where
  "gradient lib P x =
     seq (gradient_bending P x) (\<lambda>a.
     seq (gradient_penalty lib P x) (\<lambda>b.
     seq (force P x) (\<lambda>c.
       if length a \<noteq> length b then Inl ValueError
       else Inr (vadd (vadd a b) c))))"

subsection \<open>Hessian\<close>

text \<open>
  \<^verbatim>\<open>hessian_penalty\<close> (lines 128 to 140) returns its value and leaves the object changed;
  the model returns both. Nothing is assigned before the last division, so a call that
  fails leaves the object as it was.

  \<^verbatim>\<open>self.hess_pre\<close> and \<^verbatim>\<open>np.outer(s,s)\<close> are \<^verbatim>\<open>np.ndarray\<close>s, whose \<^verbatim>\<open>*\<close> is the
  elementwise product; \<^verbatim>\<open>np.matrix(s)*self.hess_pre*np.matrix(s).T\<close> starts from an
  \<^verbatim>\<open>np.matrix\<close>, whose \<^verbatim>\<open>*\<close> is the matrix product.
\<close>

definition hessian_penalty ::
  "mesh_lib \<Rightarrow> problem \<Rightarrow> vec \<Rightarrow> (py_error + mat) \<times> problem" where
  "hessian_penalty lib P x =
     (case seq (gradient_penalty lib P x) (\<lambda>gp.
           seq (force P x) (\<lambda>fo.
             let n = length x;
                 grad = vadd gp fo
             in
             if length (x_pre P) \<noteq> n \<or> length (gradient_pre P) \<noteq> n
                \<or> \<not> is_mat n n (hess_pre P)
             then Inl ValueError
             else
             let s = vsub x (x_pre P);
                 y = vsub grad (gradient_pre P)
             in
             if inner y s = 0 then Inl FloatingPointError
             else
             let C = mdiv_scalar (outer y y) (inner y s);
                 den = inner (vec_mat s (hess_pre P)) s
             in
             if den = 0 then Inl FloatingPointError
             else
             let D = mdiv_scalar
                       (mmul_elem (mmul_elem (hess_pre P) (outer s s))
                                  (mtranspose (hess_pre P)))
                       den;
                 hess' = msub (madd (hess_pre P) C) D
             in Inr (grad, hess')))
      of Inl e \<Rightarrow> (Inl e, P)
       | Inr (grad, hess') \<Rightarrow>
           (Inr hess', P\<lparr> gradient_pre := grad, x_pre := x, hess_pre := hess' \<rparr>))"

text \<open>
  \<^verbatim>\<open>hessian\<close> (lines 142 to 144). The sum needs both matrices of one shape; when it
  raises, \<^verbatim>\<open>hessian_penalty\<close> has already changed the object.
\<close>

definition hessian :: "mesh_lib \<Rightarrow> problem \<Rightarrow> vec \<Rightarrow> (py_error + mat) \<times> problem" where
  "hessian lib P x =
     (let a = hessian_bending P in
      case hessian_penalty lib P x of
        (Inl e, P') \<Rightarrow> (Inl e, P')
      | (Inr b, P') \<Rightarrow>
          (if is_mat (length x) (length x) a then (Inr (madd a b), P')
           else (Inl ValueError, P')))"

subsection \<open>Row \<open>v\<close> of the Laplacian applied to the positions\<close>

text \<open>
  Row \<open>v\<close> of \<open>laplacian \<cdot> X\<close>, written out with sums, where \<open>X\<close> is the \<open>V \<times> 3\<close> matrix
  whose column \<open>k\<close> holds the entries \<open>k V, \<dots>, k V + V - 1\<close> of \<open>x\<close>: the curvature
  vector of vertex \<open>v\<close> that section 4.4 of the specification normalises.
\<close>

definition curvature_row :: "problem \<Rightarrow> vec \<Rightarrow> nat \<Rightarrow> vec3" where
  "curvature_row P x v =
     (let V = length (vertices (mesh P)) in
        (\<Sum>j<V. laplacian P ! v ! j * x ! j,
         \<Sum>j<V. laplacian P ! v ! j * x ! (V + j),
         \<Sum>j<V. laplacian P ! v ! j * x ! (2 * V + j)))"

subsection \<open>A mesh library to run the model on\<close>

text \<open>
  An instance of \<open>mesh_lib\<close> for closed examples, with the textbook meaning of each
  service: the area of a triangle is half the norm of the cross product of two of its
  edges, its normal is that cross product scaled to unit length, two faces are adjacent when
  they share an edge, the lumped mass of a vertex is a third of the area of the faces
  around it. The Laplacian is the graph Laplacian, which is what section 3 of the
  specification calls it: the degree of the vertex on the diagonal and \<open>-1\<close> for each edge.
  The inverse is taken of diagonal matrices only, which is what a lumped mass matrix is.
\<close>

fun face_list :: "face \<Rightarrow> nat list" where
  "face_list (a, b, c) = [a, b, c]"

fun tri_cross :: "vec3 list \<Rightarrow> face \<Rightarrow> vec3" where
  "tri_cross vs (a, b, c) = cross3 (sub3 (vs ! b) (vs ! a)) (sub3 (vs ! c) (vs ! a))"

definition tri_area :: "vec3 list \<Rightarrow> face \<Rightarrow> real" where
  "tri_area vs t = norm3 (tri_cross vs t) / 2"

fun list3 :: "vec3 \<Rightarrow> vec" where
  "list3 (a, b, c) = [a, b, c]"

definition tri_normal :: "vec3 list \<Rightarrow> face \<Rightarrow> vec3" where
  "tri_normal vs t = map3 (\<lambda>c. c / norm3 (tri_cross vs t)) (tri_cross vs t)"

definition shares_edge :: "face \<Rightarrow> face \<Rightarrow> bool" where
  "shares_edge t u =
     (2 \<le> length (filter (\<lambda>a. a \<in> set (face_list u)) (remdups (face_list t))))"

definition has_edge :: "face list \<Rightarrow> nat \<Rightarrow> nat \<Rightarrow> bool" where
  "has_edge fs i j =
     (i \<noteq> j \<and> list_ex (\<lambda>t. i \<in> set (face_list t) \<and> j \<in> set (face_list t)) fs)"

definition diag :: "vec \<Rightarrow> mat" where
  "diag d = map (\<lambda>i. map (\<lambda>j. if i = j then d ! i else 0) [0..<length d]) [0..<length d]"

definition diagonal_of :: "mat \<Rightarrow> vec" where
  "diagonal_of A = map (\<lambda>i. A ! i ! i) [0..<length A]"

definition geom_lib :: mesh_lib where
  "geom_lib =
     \<lparr> lumped_mass = (\<lambda>m. Inr (diag (map (\<lambda>v.
          sum_list (map (tri_area (vertices m))
                        (filter (\<lambda>t. v \<in> set (face_list t)) (faces m))) / 3)
          [0..<length (vertices m)]))),
       assemble_laplacian = (\<lambda>m. Inr (map (\<lambda>i. map (\<lambda>j.
          if i = j
          then real (length (filter (has_edge (faces m) i) [0..<length (vertices m)]))
          else if has_edge (faces m) i j then - 1 else 0)
          [0..<length (vertices m)]) [0..<length (vertices m)])),
       face_area = (\<lambda>m. map (tri_area (vertices m)) (faces m)),
       face_normal = (\<lambda>m. concat (map (\<lambda>t. list3 (tri_normal (vertices m) t)) (faces m))),
       get_face_adjacent_faces = (\<lambda>m i.
          if length (faces m) \<le> i then Inl IndexError
          else Inr (filter (\<lambda>j. j \<noteq> i \<and> shares_edge (faces m ! i) (faces m ! j))
                           [0..<length (faces m)])),
       sp_inv = (\<lambda>A.
          if A = diag (diagonal_of A) \<and> \<not> list_ex (\<lambda>a. a = 0) (diagonal_of A)
          then Inr (diag (map (\<lambda>a. 1 / a) (diagonal_of A)))
          else Inl LibraryError) \<rparr>"

text \<open>
  The tetrahedron with corners \<open>(0,0,0)\<close>, \<open>(1,0,0)\<close>, \<open>(0,1,0)\<close>, \<open>(0,0,2)\<close>, its faces
  oriented outwards. Their areas are \<open>1/2\<close>, \<open>1\<close>, \<open>1\<close> and \<open>3/2\<close>.
\<close>

definition tet :: mesh where
  "tet = \<lparr> vertices = [(0, 0, 0), (1, 0, 0), (0, 1, 0), (0, 0, 2)],
           faces = [(0, 2, 1), (0, 1, 3), (0, 3, 2), (1, 2, 3)] \<rparr>"

text \<open>
  The object \<^verbatim>\<open>problem(1, p, tet)\<close>, as \<open>init\<close> builds it with \<open>geom_lib\<close> (lemma
  \<open>init_tet\<close> below).
\<close>

definition tet_problem :: "real \<Rightarrow> problem" where
  "tet_problem p =
     \<lparr> mesh = tet,
       init_M = [[5 / 6, 0, 0, 0], [0, 1, 0, 0], [0, 0, 1, 0], [0, 0, 0, 7 / 6]],
       At0 = [1 / 2, 1, 1, 3 / 2],
       hess = block_diag3
         [[478 / 35, - (166 / 35), - (166 / 35), - (146 / 35)],
          [- (166 / 35), 422 / 35, - (138 / 35), - (118 / 35)],
          [- (166 / 35), - (138 / 35), 422 / 35, - (118 / 35)],
          [- (146 / 35), - (118 / 35), - (118 / 35), 382 / 35]],
       laplacian =
         [[18 / 5, - (6 / 5), - (6 / 5), - (6 / 5)],
          [- 1, 3, - 1, - 1],
          [- 1, - 1, 3, - 1],
          [- (6 / 7), - (6 / 7), - (6 / 7), 18 / 7]],
       penalty = 1,
       nu_grad_size = 1 / 100000000,
       x0 = [0, 1, 0, 0, 0, 0, 1, 0, 0, 0, 0, 2],
       pressure = p,
       gradient_pre = zeros 12,
       x_pre = zeros 12,
       hess_pre = eye 12 \<rparr>"

section \<open>Properties\<close>

subsection \<open>Sequencing, sums and shapes\<close>

lemma seq_Inl [simp]: "seq (Inl e) f = Inl e"
  by (simp add: seq_def)

lemma seq_Inr [simp]: "seq (Inr v) f = f v"
  by (simp add: seq_def)

lemma seq_eq_Inr_iff: "seq m f = Inr b \<longleftrightarrow> (\<exists>a. m = Inr a \<and> f a = Inr b)"
  by (cases m) simp_all

lemma inner_sum_nth:
  "length x = length y \<Longrightarrow> inner x y = (\<Sum>i<length x. x ! i * y ! i)"
proof -
  assume len: "length x = length y"
  have "inner x y = (\<Sum>i = 0..<length (map2 (*) x y). map2 (*) x y ! i)"
    unfolding inner_def by (rule sum_list_sum_nth)
  also have "\<dots> = (\<Sum>i<length x. x ! i * y ! i)"
    using len by (intro sum.cong) (auto simp: lessThan_atLeast0)
  finally show ?thesis .
qed

lemma is_mat_nth_length: "is_mat m n A \<Longrightarrow> i < m \<Longrightarrow> length (A ! i) = n"
  by (simp add: is_mat_def list_all_length)

lemma is_mat_length: "is_mat m n A \<Longrightarrow> length A = m"
  by (simp add: is_mat_def)

lemma ncols_is_mat: "is_mat m n A \<Longrightarrow> 0 < m \<Longrightarrow> ncols A = n"
  by (cases A) (auto simp: is_mat_def ncols_def)

lemma length_mtranspose [simp]: "length (mtranspose A) = ncols A"
  by (simp add: mtranspose_def)

lemma length_vec_mat [simp]: "length (vec_mat x A) = ncols A"
  by (simp add: vec_mat_def)

lemma length_mat_vec [simp]: "length (mat_vec A x) = length A"
  by (simp add: mat_vec_def)

lemma mat_vec_nth:
  "i < length A \<Longrightarrow> length (A ! i) = length x \<Longrightarrow>
   mat_vec A x ! i = (\<Sum>j<length x. A ! i ! j * x ! j)"
  by (simp add: mat_vec_def inner_sum_nth)

lemma vec_mat_nth:
  assumes "is_mat m n A" "length x = m" "j < n" "0 < m"
  shows "vec_mat x A ! j = (\<Sum>i<m. x ! i * A ! i ! j)"
proof -
  have nc: "ncols A = n" using assms ncols_is_mat by blast
  have "vec_mat x A ! j = inner x (map (\<lambda>r. r ! j) A)"
    using assms nc by (simp add: vec_mat_def mtranspose_def)
  also have "\<dots> = (\<Sum>i<m. x ! i * A ! i ! j)"
    using assms by (simp add: inner_sum_nth is_mat_def)
  finally show ?thesis .
qed

lemma quad_form:
  assumes "is_mat n n A" "length x = n"
  shows "inner (vec_mat x A) x = (\<Sum>i<n. \<Sum>j<n. x ! i * A ! i ! j * x ! j)"
proof (cases "n = 0")
  case True
  with assms show ?thesis by (simp add: inner_def)
next
  case False
  then have pos: "0 < n" by simp
  have nc: "ncols A = n" using assms pos ncols_is_mat by blast
  have "inner (vec_mat x A) x = (\<Sum>j<n. vec_mat x A ! j * x ! j)"
    using assms nc by (simp add: inner_sum_nth)
  also have "\<dots> = (\<Sum>j<n. (\<Sum>i<n. x ! i * A ! i ! j) * x ! j)"
    using assms pos by (intro sum.cong) (simp_all add: vec_mat_nth)
  also have "\<dots> = (\<Sum>j<n. \<Sum>i<n. x ! i * A ! i ! j * x ! j)"
    by (simp add: sum_distrib_right)
  also have "\<dots> = (\<Sum>i<n. \<Sum>j<n. x ! i * A ! i ! j * x ! j)"
    by (rule sum.swap)
  finally show ?thesis .
qed

lemma mmul_chk_Inr: "mmul_chk A B = Inr C \<Longrightarrow> C = mmul A B"
  by (auto simp: mmul_chk_def split: if_splits)

lemma init_fields:
  assumes "init lib pen ex m nu = Inr P"
  shows "\<exists>M L Minv. lumped_mass lib m = Inr M \<and> assemble_laplacian lib m = Inr L
           \<and> sp_inv lib M = Inr Minv
           \<and> P = \<lparr> mesh = m, init_M = M, At0 = face_area lib m,
                   hess = block_diag3 (mmul (mmul (mtranspose L) Minv) L),
                   laplacian = mmul Minv L, penalty = pen, nu_grad_size = nu,
                   x0 = flatten_F (vertices m), pressure = ex,
                   gradient_pre = zeros (size_vertices m),
                   x_pre = zeros (size_vertices m),
                   hess_pre = eye (size_vertices m) \<rparr>"
  using assms unfolding init_def
  by (auto simp: seq_eq_Inr_iff dest!: mmul_chk_Inr)

lemma is_mat_block_diag3:
  assumes "is_mat n n B"
  shows "is_mat (3 * n) (3 * n) (block_diag3 B)"
proof (cases "n = 0")
  case True
  with assms show ?thesis by (simp add: is_mat_def block_diag3_def)
next
  case False
  then have "ncols B = n" using assms ncols_is_mat by blast
  with assms show ?thesis
    by (auto simp: is_mat_def block_diag3_def zeros_def list_all_iff)
qed

lemma ncols_is_mat': "is_mat m m A \<Longrightarrow> ncols A = m"
  by (cases A) (auto simp: is_mat_def ncols_def)

lemma hess_block_is_mat:
  assumes "is_mat V V L"
  shows "is_mat V V (mmul (mmul (mtranspose L) Minv) L)"
  using assms by (simp add: is_mat_def mmul_def list_all_length ncols_is_mat')

lemma hess_hessian_penalty [simp]: "hess (snd (hessian_penalty lib P x)) = hess P"
  by (simp add: hessian_penalty_def split: sum.splits prod.splits)

lemma hess_hessian [simp]: "hess (snd (hessian lib P x)) = hess P"
proof -
  have "snd (hessian lib P x) = snd (hessian_penalty lib P x)"
    by (simp add: hessian_def Let_def split: sum.splits prod.splits)
  then show ?thesis by simp
qed


subsection \<open>The tetrahedron\<close>

lemma sqrt9: "sqrt 9 = 3" using real_sqrt_abs[of 3] by simp

lemma tet_lumped_mass: "lumped_mass geom_lib tet =
      Inr [[5 / 6, 0, 0, 0], [0, 1, 0, 0], [0, 0, 1, 0], [0, 0, 0, 7 / 6]]"
  by (simp add: geom_lib_def tet_def tri_area_def norm3_def sqrt9 diag_def upt_rec_numeral)

lemma tet_laplacian: "assemble_laplacian geom_lib tet =
   Inr [[3, - 1, - 1, - 1], [- 1, 3, - 1, - 1], [- 1, - 1, 3, - 1], [- 1, - 1, - 1, 3]]"
  by (simp add: geom_lib_def tet_def has_edge_def upt_rec_numeral)

lemma tet_sp_inv:
  "sp_inv geom_lib [[5 / 6, 0, 0, 0], [0, 1, 0, 0], [0, 0, 1, 0], [0, 0, 0, 7 / 6]] = 
   Inr [[6 / 5, 0, 0, 0], [0, 1, 0, 0], [0, 0, 1, 0], [0, 0, 0, 6 / 7]]"
  by (simp add: geom_lib_def diag_def diagonal_of_def upt_rec_numeral)

lemma tet_face_area: "face_area geom_lib tet = [1 / 2, 1, 1, 3 / 2]"
  by (simp add: geom_lib_def tet_def tri_area_def norm3_def sqrt9)

lemma init_tet: "init geom_lib 1 p tet (1 / 100000000) = Inr (tet_problem p)"
  unfolding init_def tet_lumped_mass tet_laplacian tet_sp_inv seq_Inr tet_face_area
  by (simp add: tet_problem_def mmul_chk_def mmul_def mtranspose_def ncols_def nrows_def
      vec_mat_def inner_def upt_rec_numeral flatten_F_def size_vertices_def tet_def)


subsection \<open>Bending energy and gradient\<close>

text \<open>
  Claim C4. Let the object be built by \<open>init\<close> from a mesh of \<open>V\<close> vertices whose
  Laplacian \<open>L\<close> is \<open>V \<times> V\<close>, with \<open>Minv\<close> the inverse of the lumped mass matrix as
  \<open>sp_inv\<close> returned it. Then \<open>hess\<close> is the block diagonal of three copies of
  \<open>L\<^sup>T Minv L\<close>; for every \<open>x\<close> of length \<open>3 V\<close>, \<open>obj_func_bending x\<close> is half the
  quadratic form \<open>\<Sum>\<^sub>i \<Sum>\<^sub>j x\<^sub>i H\<^sub>i\<^sub>j x\<^sub>j\<close> and \<open>gradient_bending x\<close> is the vector of the
  \<open>\<Sum>\<^sub>j H\<^sub>i\<^sub>j x\<^sub>j\<close>; and \<open>hess\<close> is still the same matrix after any call of \<open>hessian\<close>,
  the one method that assigns to the object.
\<close>

theorem bending_energy_and_gradient:
  assumes "init lib pen ex m nu = Inr P"
    and "lumped_mass lib m = Inr M" and "sp_inv lib M = Inr Minv"
    and "assemble_laplacian lib m = Inr L"
    and "is_mat (length (vertices m)) (length (vertices m)) L"
    and "length x = 3 * length (vertices m)"
  shows "hess P = block_diag3 (mmul (mmul (mtranspose L) Minv) L)
       \<and> obj_func_bending P x
           = Inr ((\<Sum>i<length x. \<Sum>j<length x. x ! i * hess P ! i ! j * x ! j) / 2)
       \<and> gradient_bending P x
           = Inr (map (\<lambda>i. \<Sum>j<length x. hess P ! i ! j * x ! j) [0..<length x])
       \<and> hess (snd (hessian lib P y)) = hess P"
proof -
  from init_fields[OF assms(1)] assms(2-4)
  have H: "hess P = block_diag3 (mmul (mmul (mtranspose L) Minv) L)"
    by auto
  have mat: "is_mat (length x) (length x) (hess P)"
    unfolding H assms(6) by (intro is_mat_block_diag3 hess_block_is_mat assms(5))
  have E: "obj_func_bending P x
           = Inr ((\<Sum>i<length x. \<Sum>j<length x. x ! i * hess P ! i ! j * x ! j) / 2)"
    using mat by (simp add: obj_func_bending_def quad_form)
  have rows: "list_all (\<lambda>r. length r = length x) (hess P)"
    using mat by (simp add: is_mat_def)
  have "mat_vec (hess P) x = map (\<lambda>i. \<Sum>j<length x. hess P ! i ! j * x ! j) [0..<length x]"
  proof (rule nth_equalityI)
    show "length (mat_vec (hess P) x)
          = length (map (\<lambda>i. \<Sum>j<length x. hess P ! i ! j * x ! j) [0..<length x])"
      using mat by (simp add: is_mat_def)
  next
    fix i assume "i < length (mat_vec (hess P) x)"
    then have i: "i < length x" using mat by (simp add: is_mat_def)
    then show "mat_vec (hess P) x ! i
               = map (\<lambda>i. \<Sum>j<length x. hess P ! i ! j * x ! j) [0..<length x] ! i"
      using mat by (simp add: mat_vec_nth is_mat_def list_all_length)
  qed
  then have G: "gradient_bending P x
           = Inr (map (\<lambda>i. \<Sum>j<length x. hess P ! i ! j * x ! j) [0..<length x])"
    using rows by (simp add: gradient_bending_def)
  from H E G show ?thesis by simp
qed

theorem bending_energy_and_gradient_witness:
  "init geom_lib 1 0 tet (1 / 100000000) = Inr (tet_problem 0)
   \<and> obj_func_bending (tet_problem 0) [0, 1, 0, 0, 0, 0, 1, 0, 0, 0, 0, 2]
       = Inr ((\<Sum>i<12. \<Sum>j<12. [0, 1, 0, 0, 0, 0, 1, 0, 0, 0, 0, 2] ! i
                 * hess (tet_problem 0) ! i ! j
                 * [0, 1, 0, 0, 0, 0, 1, 0, 0, 0, 0, 2] ! j) / 2)
   \<and> obj_func_bending (tet_problem 0) [0, 1, 0, 0, 0, 0, 1, 0, 0, 0, 0, 2] = Inr (1186 / 35)
   \<and> gradient_bending (tet_problem 0) [0, 1, 0, 0, 0, 0, 1, 0, 0, 0, 0, 2]
       = Inr [- (166 / 35), 422 / 35, - (138 / 35), - (118 / 35), - (166 / 35),
              - (138 / 35), 422 / 35, - (118 / 35), - (292 / 35), - (236 / 35),
              - (236 / 35), 764 / 35]"
proof -
  have L: "is_mat (length (vertices tet)) (length (vertices tet))
             [[3, - 1, - 1, - 1], [- 1, 3, - 1, - 1], [- 1, - 1, 3, - 1], [- 1, - 1, - 1, 3]]"
    by (simp add: is_mat_def tet_def)
  have x: "length [0, 1, 0, 0, 0, 0, 1, 0, 0, 0, 0, 2::real] = 3 * length (vertices tet)"
    by (simp add: tet_def)
  note t = bending_energy_and_gradient [OF init_tet tet_lumped_mass tet_sp_inv tet_laplacian L x]
  have e: "obj_func_bending (tet_problem 0) [0, 1, 0, 0, 0, 0, 1, 0, 0, 0, 0, 2]
           = Inr (1186 / 35)"
    by (simp add: obj_func_bending_def tet_problem_def block_diag3_def ncols_def zeros_def
        is_mat_def vec_mat_def mtranspose_def inner_def upt_rec_numeral)
  have g: "gradient_bending (tet_problem 0) [0, 1, 0, 0, 0, 0, 1, 0, 0, 0, 0, 2]
           = Inr [- (166 / 35), 422 / 35, - (138 / 35), - (118 / 35), - (166 / 35),
                  - (138 / 35), 422 / 35, - (118 / 35), - (292 / 35), - (236 / 35),
                  - (236 / 35), 764 / 35]"
    by (simp add: gradient_bending_def tet_problem_def block_diag3_def ncols_def zeros_def
        is_mat_def mat_vec_def inner_def upt_rec_numeral)
  have len: "length [0, 1, 0, 0, 0, 0, 1, 0, 0, 0, 0, 2::real] = 12"
    by simp
  note q = t [of 0, unfolded len, THEN conjunct2, THEN conjunct1]
  show ?thesis
    by (intro conjI) (rule init_tet q e g)+
qed

subsection \<open>The pressure force\<close>

lemma mat_rows3_nth:
  assumes "v < length A" "length (A ! v) = length X"
  shows "mat_rows3 A X ! v =
     (\<Sum>j<length X. A ! v ! j * fst (X ! j),
      \<Sum>j<length X. A ! v ! j * fst (snd (X ! j)),
      \<Sum>j<length X. A ! v ! j * snd (snd (X ! j)))"
  using assms by (simp add: mat_rows3_def inner_sum_nth)

lemma reshape_F_Inr:
  "length x = 3 * V \<Longrightarrow>
   reshape_F x V = Inr (map (\<lambda>i. (x ! i, x ! (V + i), x ! (2 * V + i))) [0..<V])"
  by (simp add: reshape_F_def)

lemma mat_rows3_curvature:
  assumes "is_mat V V (laplacian P)" "V = length (vertices (mesh P))" "v < V"
  shows "mat_rows3 (laplacian P) (map (\<lambda>i. (x ! i, x ! (V + i), x ! (2 * V + i))) [0..<V]) ! v
         = curvature_row P x v"
proof -
  have "length (laplacian P ! v) = V" "v < length (laplacian P)"
    using assms by (simp_all add: is_mat_def list_all_length)
  then show ?thesis
    using assms(2,3) by (simp add: mat_rows3_nth curvature_row_def Let_def)
qed

lemma norm3_map3_unit:
  assumes "norm3 u \<noteq> 0"
  shows "norm3 (map3 (\<lambda>c. c / norm3 u) u) = 1"
proof -
  obtain a b c where u: "u = (a, b, c)" by (cases u)
  let ?n = "norm3 u"
  have n2: "?n * ?n = a * a + b * b + c * c"
  proof -
    have "0 \<le> a * a + b * b + c * c" by simp
    then show ?thesis unfolding u norm3_def by simp
  qed
  have "dot3 (map3 (\<lambda>c. c / ?n) u) (map3 (\<lambda>c. c / ?n) u)
        = (a * a + b * b + c * c) / (?n * ?n)"
    unfolding u by (simp add: add_divide_distrib)
  also have "\<dots> = 1" using assms by (simp flip: n2)
  finally show ?thesis by (simp add: norm3_def)
qed

lemma list_ex_map_upt:
  "list_ex Q (map g [0..<n]) \<longleftrightarrow> (\<exists>i<n. Q (g i))"
  by (auto simp: list_ex_iff)

lemma flatten_F_nth:
  assumes "v < length X"
  shows "flatten_F X ! v = fst (X ! v)"
    and "flatten_F X ! (length X + v) = fst (snd (X ! v))"
    and "flatten_F X ! (2 * length X + v) = snd (snd (X ! v))"
  using assms by (simp_all add: flatten_F_def nth_append)

lemma length_flatten_F [simp]: "length (flatten_F X) = 3 * length X"
  by (simp add: flatten_F_def)

text \<open>
  Claim C6. Let \<open>x\<close> have length \<open>3 V\<close> and the stored operator \<open>laplacian\<close> (the product
  \<open>M\<^sub>0\<^sup>-\<^sup>1 L\<close>) be \<open>V \<times> V\<close>. If every row of \<open>laplacian \<cdot> X\<close> has a nonzero Euclidean norm,
  \<open>force x\<close> returns a vector \<open>f\<close> of length \<open>3 V\<close> whose entries \<open>v\<close>, \<open>V + v\<close> and
  \<open>2 V + v\<close> (the place of vertex \<open>v\<close> in the column-major flattening) are the pressure
  times row \<open>v\<close> divided by its norm, and that normalised row has norm \<open>1\<close>. If some row
  has norm zero, the division has no value: the model returns \<open>FloatingPointError\<close>, and
  nothing in the code guards it.
\<close>

theorem force_normalised_curvature:
  assumes V: "V = length (vertices (mesh P))"
    and len: "length x = 3 * V"
    and lap: "is_mat V V (laplacian P)"
  shows "if \<forall>v<V. norm3 (curvature_row P x v) \<noteq> 0
         then \<exists>f. force P x = Inr f \<and> length f = 3 * V
                \<and> (\<forall>v<V. (f ! v, f ! (V + v), f ! (2 * V + v))
                            = scale3 (pressure P)
                                (map3 (\<lambda>c. c / norm3 (curvature_row P x v))
                                      (curvature_row P x v))
                          \<and> norm3 (map3 (\<lambda>c. c / norm3 (curvature_row P x v))
                                         (curvature_row P x v)) = 1)
         else force P x = Inl FloatingPointError"
proof -
  let ?vs = "map (\<lambda>i. (x ! i, x ! (V + i), x ! (2 * V + i))) [0..<V]"
  let ?vector = "mat_rows3 (laplacian P) ?vs"
  have rows: "list_all (\<lambda>r. length r = V) (laplacian P)"
    using lap by (simp add: is_mat_def)
  have lenv: "length ?vector = V"
    using lap by (simp add: mat_rows3_def is_mat_def)
  have nth: "\<And>v. v < V \<Longrightarrow> ?vector ! v = curvature_row P x v"
    using mat_rows3_curvature [OF lap V] .
  have vec: "?vector = map (curvature_row P x) [0..<V]"
    by (rule nth_equalityI) (simp_all add: lenv nth)
  have ex: "list_ex (\<lambda>u. norm3 u = 0) ?vector \<longleftrightarrow> (\<exists>v<V. norm3 (curvature_row P x v) = 0)"
    unfolding vec by (rule list_ex_map_upt)
  show ?thesis
  proof (cases "\<forall>v<V. norm3 (curvature_row P x v) \<noteq> 0")
    case False
    then have "list_ex (\<lambda>u. norm3 u = 0) ?vector" using ex by blast
    then have "force P x = Inl FloatingPointError"
      using rows len by (simp add: force_def V [symmetric] reshape_F_Inr Let_def)
    with False show ?thesis by (simp only: if_False)
  next
    case True
    then have nex: "\<not> list_ex (\<lambda>u. norm3 u = 0) ?vector" using ex by blast
    let ?unit = "map (\<lambda>u. map3 (\<lambda>c. c / norm3 u) u) ?vector"
    let ?f = "smul (pressure P) (flatten_F ?unit)"
    have F: "force P x = Inr ?f"
      using rows len nex lenv
      by (simp add: force_def V [symmetric] reshape_F_Inr Let_def)
    have lu: "length ?unit = V" using lenv by simp
    have comp: "(?f ! v, ?f ! (V + v), ?f ! (2 * V + v))
                 = scale3 (pressure P)
                     (map3 (\<lambda>c. c / norm3 (curvature_row P x v)) (curvature_row P x v))"
      if v: "v < V" for v
    proof -
      have u: "?unit ! v = map3 (\<lambda>c. c / norm3 (curvature_row P x v)) (curvature_row P x v)"
        using v lenv nth by simp
      obtain a b c where abc: "?unit ! v = (a, b, c)" by (cases "?unit ! v")
      have "flatten_F ?unit ! v = a" "flatten_F ?unit ! (V + v) = b"
           "flatten_F ?unit ! (2 * V + v) = c"
        using flatten_F_nth [of v ?unit] v lu abc by simp_all
      moreover have "v < 3 * V" "V + v < 3 * V" "2 * V + v < 3 * V" using v by simp_all
      ultimately have "(?f ! v, ?f ! (V + v), ?f ! (2 * V + v))
                       = scale3 (pressure P) (a, b, c)"
        using lu by (simp add: smul_def)
      then show ?thesis using abc u by simp
    qed
    have lf: "length ?f = 3 * V" using lu by (simp add: smul_def)
    have unit: "norm3 (map3 (\<lambda>c. c / norm3 (curvature_row P x v)) (curvature_row P x v)) = 1"
      if "v < V" for v
      using True that by (intro norm3_map3_unit) blast
    have "\<exists>f. force P x = Inr f \<and> length f = 3 * V
                \<and> (\<forall>v<V. (f ! v, f ! (V + v), f ! (2 * V + v))
                            = scale3 (pressure P)
                                (map3 (\<lambda>c. c / norm3 (curvature_row P x v))
                                      (curvature_row P x v))
                          \<and> norm3 (map3 (\<lambda>c. c / norm3 (curvature_row P x v))
                                         (curvature_row P x v)) = 1)"
      by (rule exI [of _ ?f]) (use F lf comp unit in blast)
    with True show ?thesis by (simp only: if_P)
  qed
qed

lemma tet_curvature_rows:
  "curvature_row (tet_problem p) [0, 1, 0, 0, 0, 0, 1, 0, 0, 0, 0, 2] 0
     = (- (6 / 5), - (6 / 5), - (12 / 5))"
  "curvature_row (tet_problem p) [0, 1, 0, 0, 0, 0, 1, 0, 0, 0, 0, 2] 1 = (3, - 1, - 2)"
  "curvature_row (tet_problem p) [0, 1, 0, 0, 0, 0, 1, 0, 0, 0, 0, 2] 2 = (- 1, 3, - 2)"
  "curvature_row (tet_problem p) [0, 1, 0, 0, 0, 0, 1, 0, 0, 0, 0, 2] 3
     = (- (6 / 7), - (6 / 7), 36 / 7)"
  by (simp_all add: curvature_row_def tet_problem_def tet_def eval_nat_numeral lessThan_Suc)

lemma less4: "v < (4::nat) \<longleftrightarrow> v = 0 \<or> v = 1 \<or> v = 2 \<or> v = 3"
  by arith

lemma tet_curvature_zero:
  "curvature_row (tet_problem p) (zeros 12) 0 = (0, 0, 0)"
  by (simp add: curvature_row_def tet_problem_def tet_def zeros_def)

theorem force_normalised_curvature_witness:
  "(\<exists>f. force (tet_problem 2) [0, 1, 0, 0, 0, 0, 1, 0, 0, 0, 0, 2] = Inr f
        \<and> length f = 12
        \<and> (f ! 1, f ! 5, f ! 9) = (6 / sqrt 14, - (2 / sqrt 14), - (4 / sqrt 14)))
   \<and> force (tet_problem 2) (zeros 12) = Inl FloatingPointError"
proof -
  let ?x = "[0, 1, 0, 0, 0, 0, 1, 0, 0, 0, 0, 2::real]"
  have V: "4 = length (vertices (mesh (tet_problem 2)))"
    by (simp add: tet_problem_def tet_def)
  have lap: "is_mat 4 4 (laplacian (tet_problem 2))"
    by (simp add: tet_problem_def is_mat_def)
  have pr: "pressure (tet_problem 2) = 2" by (simp add: tet_problem_def)
  note rows = tet_curvature_rows [of 2] tet_curvature_rows(2) [of 2, unfolded One_nat_def]
  have nz: "\<forall>v<4. norm3 (curvature_row (tet_problem 2) ?x v) \<noteq> 0"
    by (auto simp: less4 rows norm3_def)
  have len: "length ?x = 3 * 4" by simp
  from force_normalised_curvature [OF V len lap] nz
  obtain f where f: "force (tet_problem 2) ?x = Inr f" "length f = 3 * 4"
    and c: "\<forall>v<4. (f ! v, f ! (4 + v), f ! (2 * 4 + v))
               = scale3 (pressure (tet_problem 2))
                  (map3 (\<lambda>c. c / norm3 (curvature_row (tet_problem 2) ?x v))
                        (curvature_row (tet_problem 2) ?x v))
             \<and> norm3 (map3 (\<lambda>c. c / norm3 (curvature_row (tet_problem 2) ?x v))
                        (curvature_row (tet_problem 2) ?x v)) = 1"
    by (simp only: if_P) blast
  have "1 < (4::nat)" by simp
  from c [rule_format, OF this, THEN conjunct1]
  have one: "(f ! 1, f ! 5, f ! 9) = (6 / sqrt 14, - (2 / sqrt 14), - (4 / sqrt 14))"
    by (simp add: rows norm3_def pr)
  have z: "\<not> (\<forall>v<4. norm3 (curvature_row (tet_problem 2) (zeros 12) v) \<noteq> 0)"
    using tet_curvature_zero [of 2] by (auto simp: norm3_def intro: exI [of _ 0])
  have lz: "length (zeros 12) = 3 * 4" by (simp add: zeros_def)
  from force_normalised_curvature [OF V lz lap] z
  have "force (tet_problem 2) (zeros 12) = Inl FloatingPointError"
    by (simp only: if_False)
  with f one show ?thesis by auto
qed

subsection \<open>The area penalty energy\<close>

lemma norm_vec_squared: "(norm_vec v)\<^sup>2 = sum_list (map (\<lambda>a. a * a) v)"
proof -
  have "0 \<le> sum_list (map (\<lambda>a. a * a) v)"
    by (rule sum_list_nonneg) auto
  then show ?thesis by (simp add: norm_vec_def)
qed

lemma sum_list_map2_nth:
  assumes "length xs = length ys"
  shows "sum_list (map g (map2 h xs ys)) = (\<Sum>i<length ys. g (h (xs ! i) (ys ! i)))"
proof -
  have "sum_list (map g (map2 h xs ys))
        = (\<Sum>i = 0..<length (map g (map2 h xs ys)). map g (map2 h xs ys) ! i)"
    by (rule sum_list_sum_nth)
  also have "\<dots> = (\<Sum>i<length ys. g (h (xs ! i) (ys ! i)))"
    using assms by (intro sum.cong) (auto simp: lessThan_atLeast0)
  finally show ?thesis .
qed

lemma At0_hessian_penalty [simp]: "At0 (snd (hessian_penalty lib P x)) = At0 P"
  by (simp add: hessian_penalty_def split: sum.splits prod.splits)

lemma mesh_hessian_penalty [simp]: "mesh (snd (hessian_penalty lib P x)) = mesh P"
  by (simp add: hessian_penalty_def split: sum.splits prod.splits)

lemma snd_hessian: "snd (hessian lib P x) = snd (hessian_penalty lib P x)"
  by (simp add: hessian_def Let_def split: sum.splits prod.splits)

text \<open>
  Claim C5. Let \<open>x\<close> have length \<open>3 V\<close>, let \<open>At\<close> be the face areas the library reports for the
  mesh whose positions are the column-major reshape of \<open>x\<close> and whose faces are the stored
  ones, one per stored rest area, and let every rest area \<open>At0\<^sub>f\<close> be strictly positive. Then
  \<open>obj_func_penalty x\<close> is \<open>penalty \<cdot> \<Sum>\<^sub>f (At\<^sub>f - At0\<^sub>f)\<^sup>2 / At0\<^sub>f\<close>. The rest areas and the face
  list are the same after any call of \<open>hessian\<close>, the one method that assigns to the object.
\<close>

theorem penalty_energy:
  assumes len: "length x = 3 * V" and V: "V = length (vertices (mesh P))"
    and At: "At = face_area lib
                    (form_mesh (map (\<lambda>i. (x ! i, x ! (V + i), x ! (2 * V + i))) [0..<V])
                               (faces (mesh P)))"
    and same: "length At = length (At0 P)"
    and pos: "\<forall>a0 \<in> set (At0 P). 0 < a0"
  shows "obj_func_penalty lib P x
           = Inr (penalty P * (\<Sum>f<length (At0 P). (At ! f - At0 P ! f)\<^sup>2 / At0 P ! f))
       \<and> At0 (snd (hessian lib P y)) = At0 P
       \<and> faces (mesh (snd (hessian lib P y))) = faces (mesh P)"
proof -
  have nex: "\<not> list_ex (\<lambda>a0. a0 \<le> 0) (At0 P)"
    using pos by (auto simp: list_ex_iff)
  have summand: "((At ! f - At0 P ! f) / sqrt (At0 P ! f)) * ((At ! f - At0 P ! f) / sqrt (At0 P ! f))
              = (At ! f - At0 P ! f)\<^sup>2 / At0 P ! f"
    if "f < length (At0 P)" for f
  proof -
    have "0 < At0 P ! f" using pos that by simp
    then have "sqrt (At0 P ! f) * sqrt (At0 P ! f) = At0 P ! f" by simp
    then show ?thesis by (simp add: power2_eq_square)
  qed
  have "(norm_vec (map2 (\<lambda>a a0. (a - a0) / sqrt a0) At (At0 P)))\<^sup>2
        = (\<Sum>f<length (At0 P). ((At ! f - At0 P ! f) / sqrt (At0 P ! f))
                                 * ((At ! f - At0 P ! f) / sqrt (At0 P ! f)))"
    unfolding norm_vec_squared using same by (rule sum_list_map2_nth)
  also have "\<dots> = (\<Sum>f<length (At0 P). (At ! f - At0 P ! f)\<^sup>2 / At0 P ! f)"
    by (rule sum.cong [OF refl]) (use summand in blast)
  finally have sq: "(norm_vec (map2 (\<lambda>a a0. (a - a0) / sqrt a0) At (At0 P)))\<^sup>2
        = (\<Sum>f<length (At0 P). (At ! f - At0 P ! f)\<^sup>2 / At0 P ! f)" .
  have "obj_func_penalty lib P x
           = Inr (penalty P * (\<Sum>f<length (At0 P). (At ! f - At0 P ! f)\<^sup>2 / At0 P ! f))"
    using len same nex
    by (simp add: obj_func_penalty_def V [symmetric] reshape_F_Inr At [symmetric] Let_def sq)
  then show ?thesis by (simp add: snd_hessian)
qed

lemma sqrt16: "sqrt 16 = 4" using real_sqrt_abs[of 4] by simp
lemma sqrt64: "sqrt 64 = 8" using real_sqrt_abs[of 8] by simp
lemma sqrt144: "sqrt 144 = 12" using real_sqrt_abs[of 12] by simp

text \<open>The tetrahedron scaled by two: every area is four times the rest area.\<close>

lemma tet_doubled_vertices:
  "map (\<lambda>i. ([0, 2, 0, 0, 0, 0, 2, 0, 0, 0, 0, 4::real] ! i,
               [0, 2, 0, 0, 0, 0, 2, 0, 0, 0, 0, 4::real] ! (4 + i),
               [0, 2, 0, 0, 0, 0, 2, 0, 0, 0, 0, 4::real] ! (2 * 4 + i))) [0..<4]
   = [(0, 0, 0), (2, 0, 0), (0, 2, 0), (0, 0, 4)]"
  by (simp add: eval_nat_numeral)

lemma tet_doubled_face_area:
  "face_area geom_lib (form_mesh [(0, 0, 0), (2, 0, 0), (0, 2, 0), (0, 0, 4)] (faces tet))
   = [2, 4, 4, 6]"
  by (simp add: geom_lib_def form_mesh_def tet_def tri_area_def norm3_def sqrt16 sqrt64 sqrt144)

theorem penalty_energy_witness:
  "obj_func_penalty geom_lib (tet_problem 0) [0, 2, 0, 0, 0, 0, 2, 0, 0, 0, 0, 4] = Inr 36
   \<and> At0 (snd (hessian geom_lib (tet_problem 0) [0, 2, 0, 0, 0, 0, 2, 0, 0, 0, 0, 4]))
       = [1 / 2, 1, 1, 3 / 2]"
proof -
  let ?x = "[0, 2, 0, 0, 0, 0, 2, 0, 0, 0, 0, 4::real]"
  have len: "length ?x = 3 * 4" by simp
  have V: "4 = length (vertices (mesh (tet_problem 0)))"
    by (simp add: tet_problem_def tet_def)
  have At: "[2, 4, 4, 6] = face_area geom_lib
              (form_mesh (map (\<lambda>i. (?x ! i, ?x ! (4 + i), ?x ! (2 * 4 + i))) [0..<4])
                         (faces (mesh (tet_problem 0))))"
    unfolding tet_doubled_vertices
    using tet_doubled_face_area by (simp add: tet_problem_def)
  have A0: "At0 (tet_problem 0) = [1 / 2, 1, 1, 3 / 2]"
    by (simp add: tet_problem_def)
  have same: "length [2, 4, 4, 6::real] = length (At0 (tet_problem 0))"
    by (simp add: A0)
  have pos: "\<forall>a0 \<in> set (At0 (tet_problem 0)). 0 < a0"
    by (simp add: A0)
  have pen: "penalty (tet_problem 0) = 1" by (simp add: tet_problem_def)
  from penalty_energy [OF len V At same pos, of ?x]
  show ?thesis
    by (simp add: A0 pen eval_nat_numeral lessThan_Suc)
qed

end
